theory Spec2Isabelle
  imports Main
begin

text \<open>
  A model of the class \<^verbatim>\<open>ServerManager\<close> of the desktop client's main process (module
  \<^verbatim>\<open>service-manager\<close>): the supervisor that starts, health-checks and stops the local
  backend service. Each method is a function from the manager's state to its result and
  the new state; an \<^verbatim>\<open>async\<close> method is run to completion, except where interleaved calls
  of \<^verbatim>\<open>start\<close> are studied. Logging is left out.
\<close>

section \<open>Strings and numbers of the host language\<close>

text \<open>
  The service manager builds shell commands from JavaScript strings and inspects the
  output of child processes with \<^verbatim>\<open>includes\<close>, \<^verbatim>\<open>trim\<close> and two regular expressions.
  A JavaScript string is modelled by the bytes of its UTF-8 encoding, as a \<^typ>\<open>string\<close>:
  this is the form in which the output of a child process arrives, and decoding loses
  nothing of a well-formed string. An ASCII character is one byte, so the literals read as
  in the source. Port numbers and process identifiers are integral JavaScript numbers:
  ports are \<^typ>\<open>int\<close>, process identifiers \<^typ>\<open>nat\<close>.
\<close>

definition is_digit :: "char \<Rightarrow> bool" where
  "is_digit c = (48 \<le> (of_char c :: nat) \<and> (of_char c :: nat) \<le> 57)"

fun startsWith :: "string \<Rightarrow> string \<Rightarrow> bool" where
  "startsWith s [] = True"
| "startsWith [] (p # ps) = False"
| "startsWith (c # cs) (p # ps) = (c = p \<and> startsWith cs ps)"

text \<open>\<^verbatim>\<open>String.prototype.includes\<close>: the pattern occurs somewhere in the string.\<close>

fun str_includes :: "string \<Rightarrow> string \<Rightarrow> bool" where
  "str_includes [] pat = (pat = [])"
| "str_includes (c # cs) pat = (startsWith (c # cs) pat \<or> str_includes cs pat)"

text \<open>
  The white space of JavaScript, for \<^verbatim>\<open>trim\<close> and for \<^verbatim>\<open>\s\<close> alike: the code points
  U+0009 to U+000D, U+0020, U+00A0, U+1680, U+2000 to U+200A, U+2028, U+2029, U+202F,
  U+205F, U+3000 and U+FEFF, each given by its UTF-8 encoding. No encoding is a prefix of
  another, and in well-formed UTF-8 an encoding can only start where a character starts.
\<close>

definition ws_encodings :: "string list" where
  "ws_encodings =
     [[CHR 0x09], [CHR 0x0A], [CHR 0x0B], [CHR 0x0C], [CHR 0x0D], [CHR 0x20],
      [CHR 0xC2, CHR 0xA0],
      [CHR 0xE1, CHR 0x9A, CHR 0x80],
      [CHR 0xE2, CHR 0x80, CHR 0x80], [CHR 0xE2, CHR 0x80, CHR 0x81],
      [CHR 0xE2, CHR 0x80, CHR 0x82], [CHR 0xE2, CHR 0x80, CHR 0x83],
      [CHR 0xE2, CHR 0x80, CHR 0x84], [CHR 0xE2, CHR 0x80, CHR 0x85],
      [CHR 0xE2, CHR 0x80, CHR 0x86], [CHR 0xE2, CHR 0x80, CHR 0x87],
      [CHR 0xE2, CHR 0x80, CHR 0x88], [CHR 0xE2, CHR 0x80, CHR 0x89],
      [CHR 0xE2, CHR 0x80, CHR 0x8A],
      [CHR 0xE2, CHR 0x80, CHR 0xA8], [CHR 0xE2, CHR 0x80, CHR 0xA9],
      [CHR 0xE2, CHR 0x80, CHR 0xAF],
      [CHR 0xE2, CHR 0x81, CHR 0x9F],
      [CHR 0xE3, CHR 0x80, CHR 0x80],
      [CHR 0xEF, CHR 0xBB, CHR 0xBF]]"

text \<open>
  \<open>match_len tab s\<close>: the length of the entry of \<open>tab\<close> that \<open>s\<close> starts with, 0 when it
  starts with none. \<open>strip tab s\<close> removes such entries from the front of \<open>s\<close> as long as
  there is one. \<open>ws_len s\<close>: the number of bytes of the white-space character that \<open>s\<close>
  starts with, 0 when it starts with another character.
\<close>

fun match_len :: "string list \<Rightarrow> string \<Rightarrow> nat" where
  "match_len [] s = 0"
| "match_len (w # ws) s = (if startsWith s w then length w else match_len ws s)"

function strip :: "string list \<Rightarrow> string \<Rightarrow> string" where
  "strip tab s = (if match_len tab s = 0 then s else strip tab (drop (match_len tab s) s))"
  by pat_completeness auto
termination
proof (relation "measure (\<lambda>(tab, s). length s)")
  show "wf (measure (\<lambda>(tab, s). length s))" by simp
next
  fix tab :: "string list" and s :: string
  assume a: "match_len tab s \<noteq> 0"
  have sw: "startsWith u w \<Longrightarrow> length w \<le> length u" for u w
    by (induction u w rule: startsWith.induct) simp_all
  have "match_len t s \<noteq> 0 \<Longrightarrow> s \<noteq> []" for t
  proof (induction t)
    case Nil
    then show ?case by simp
  next
    case (Cons w t)
    then show ?case using sw [of s w] by (auto split: if_splits)
  qed
  with a have "s \<noteq> []" by blast
  with a show "((tab, drop (match_len tab s) s), (tab, s)) \<in> measure (\<lambda>(tab, s). length s)"
    by simp
qed

declare strip.simps [simp del]

definition ws_len :: "string \<Rightarrow> nat" where
  "ws_len s = match_len ws_encodings s"

text \<open>
  \<^verbatim>\<open>String.prototype.trim\<close>: white space is removed from the front, and from the back by
  reading the string and the encodings backwards.
\<close>

definition trim :: "string \<Rightarrow> string" where
  "trim s = rev (strip (map rev ws_encodings) (rev (strip ws_encodings s)))"

text \<open>The longest run of \<^verbatim>\<open>\S\<close> at the front of a string.\<close>

fun nonspace_run :: "string \<Rightarrow> string" where
  "nonspace_run [] = []"
| "nonspace_run (c # cs) = (if ws_len (c # cs) \<noteq> 0 then [] else c # nonspace_run cs)"

text \<open>\<^verbatim>\<open>Number.prototype.toString\<close> on an integral number: decimal digits, a minus sign
  for a negative number.\<close>

definition digit_char :: "nat \<Rightarrow> char" where
  "digit_char d = ''0123456789'' ! d"

function string_of_nat :: "nat \<Rightarrow> string" where
  "string_of_nat n =
     (if n < 10 then [digit_char n]
      else string_of_nat (n div 10) @ [digit_char (n mod 10)])"
  by pat_completeness auto
termination
  by (relation "measure id") auto

declare string_of_nat.simps [simp del]

definition toString :: "int \<Rightarrow> string" where
  "toString i = (if i < 0 then CHR ''-'' # string_of_nat (nat (- i)) else string_of_nat (nat i))"

text \<open>
  The regular expression \<^verbatim>\<open>/\s+(\d+)$/\<close> of the Windows branch, applied with
  \<^verbatim>\<open>exec\<close>: the string must end with a run of digits that follows white space; the
  captured group is that whole run (a shorter suffix of it follows a digit, not white space).
\<close>

definition match_trailing_pid :: "string \<Rightarrow> string option" where
  "match_trailing_pid s =
     (let ds = takeWhile is_digit (rev s);
          prior = dropWhile is_digit (rev s)
      in if ds \<noteq> [] \<and> match_len (map rev ws_encodings) prior \<noteq> 0 then Some (rev ds)
         else None)"

text \<open>
  The regular expression \<^verbatim>\<open>/^\S+\s+(\d+)/\<close> of the macOS branch: a first column of
  non-space characters, white space, then digits; the captured group is the longest run of
  digits there (each repetition is greedy and what follows it cannot start earlier).
\<close>

definition match_second_column_pid :: "string \<Rightarrow> string option" where
  "match_second_column_pid s =
     (let col1 = nonspace_run s;
          r1 = drop (length col1) s;
          r2 = strip ws_encodings r1;
          ds = takeWhile is_digit r2
      in if col1 \<noteq> [] \<and> length r2 < length r1 \<and> ds \<noteq> [] then Some ds else None)"

section \<open>The operating system as seen by the manager\<close>

text \<open>
  Every request the manager makes to the operating system or to Electron is an
  \<open>event\<close>. The manager's state carries the list of the events issued so far, and the
  environment answers a request as a function of that history, so that any deterministic
  behaviour of the machine (ports that stay busy, processes that survive a signal,
  commands that fail) is an environment.
\<close>

datatype os_platform = Win32 | Darwin | OtherPlatform

datatype kill_signal = SIGTERM | SIGKILL

datatype event =
    Listen int
  | Exec string
  | ExistsSync string
  | Spawn string "string list" "(string \<times> string) list"
  | Taskkill nat
  | ChildKill kill_signal
  | Kill0 nat
  | Sleep nat
  | HttpGet string nat
  | SendBackendReady

text \<open>
  \<open>Listen p\<close> is \<^verbatim>\<open>net.createServer().listen(p, '127.0.0.1')\<close>; \<open>Exec c\<close> the promisified
  \<^verbatim>\<open>exec(c)\<close>; \<open>Spawn path args env\<close> the \<^verbatim>\<open>spawn\<close> of the service with the variables added
  to \<^verbatim>\<open>process.env\<close>; \<open>Taskkill pid\<close> is \<^verbatim>\<open>spawn('taskkill', ['/pid', pid, '/f', '/t'])\<close>;
  \<open>ChildKill s\<close> is \<^verbatim>\<open>serverProcess.kill(s)\<close>; \<open>Kill0 pid\<close> is \<^verbatim>\<open>process.kill(pid, 0)\<close>;
  \<open>Sleep ms\<close> the \<^verbatim>\<open>setTimeout\<close> wait; \<open>HttpGet url timeout\<close> the health request;
  \<open>SendBackendReady\<close> is \<^verbatim>\<open>webContents.send('backend-ready')\<close> to the first window.
\<close>

datatype js_error = ExecutableMissing string | Thrown string

datatype http_outcome = HttpStatus nat | HttpError | HttpTimeout | HttpThrows

datatype spawn_outcome = Spawned "nat option" | SpawnThrows string

record env =
  platform :: os_platform
  isPackaged :: bool
  resourcesPath :: string
  appPath :: string
  pathJoin :: "string list \<Rightarrow> string"
  listenResult :: "event list \<Rightarrow> int \<Rightarrow> string + bool"
  execResult :: "event list \<Rightarrow> string \<Rightarrow> string + string"
  fileExists :: "event list \<Rightarrow> string \<Rightarrow> bool"
  spawnResult :: "event list \<Rightarrow> spawn_outcome"
  killThrows :: "event list \<Rightarrow> string option"
  processAlive :: "event list \<Rightarrow> nat \<Rightarrow> bool"
  httpResult :: "event list \<Rightarrow> string \<Rightarrow> nat \<Rightarrow> http_outcome"
  hasWindow :: "event list \<Rightarrow> bool"

text \<open>
  \<open>listenResult\<close>: \<open>Inr True\<close> when the test server emits \<^verbatim>\<open>error\<close> (the port is in use),
  \<open>Inr False\<close> when it emits \<^verbatim>\<open>listening\<close>, \<open>Inl msg\<close> when \<^verbatim>\<open>listen\<close> itself throws
  (the promise rejects). \<open>execResult\<close>: \<open>Inr stdout\<close> when the command exits with status 0,
  \<open>Inl msg\<close> when the promise rejects. \<open>spawnResult\<close>: the child with its \<^verbatim>\<open>pid\<close>
  (undefined when the process could not be created and the failure is reported later by
  the \<^verbatim>\<open>error\<close> event), or a synchronous throw. \<open>killThrows\<close>: whether the statement that
  sends the signal throws. \<open>processAlive\<close>: \<^verbatim>\<open>process.kill(pid, 0)\<close> does not throw.
\<close>

section \<open>The manager's state\<close>

record ChildProcess =
  pid :: "nat option"

text \<open>
  The fields of the class, and \<open>trace\<close>: the requests issued so far. The trace is not a
  field of the class; it is kept to say what an operation did. A child process is known to
  the manager by its \<^verbatim>\<open>pid\<close>, which is undefined when the process was not created.
\<close>

record ServerManager =
  serverProcess :: "ChildProcess option"
  port :: int
  serverReady :: bool
  trace :: "event list"

definition maxKillAttempts :: nat where
  "maxKillAttempts = 3"

text \<open>The state of a freshly constructed manager (the exported singleton).\<close>

definition initial :: ServerManager where
  "initial = \<lparr>serverProcess = None, port = 23450, serverReady = False, trace = []\<rparr>"

definition emit :: "event \<Rightarrow> ServerManager \<Rightarrow> ServerManager" where
  "emit ev m = m\<lparr>trace := trace m @ [ev]\<rparr>"

definition resetServerState :: "ServerManager \<Rightarrow> ServerManager" where
  "resetServerState m = m\<lparr>serverProcess := None, serverReady := False\<rparr>"

definition getPort :: "ServerManager \<Rightarrow> int" where
  "getPort m = port m"

definition isPortInUse :: "env \<Rightarrow> int \<Rightarrow> ServerManager \<Rightarrow> (string + bool) \<times> ServerManager" where
  "isPortInUse e p m = (listenResult e (trace m) p, emit (Listen p) m)"

definition execPromise :: "env \<Rightarrow> string \<Rightarrow> ServerManager \<Rightarrow> (string + string) \<times> ServerManager" where
  "execPromise e cmd m = (execResult e (trace m) cmd, emit (Exec cmd) m)"

section \<open>ProcessReaper: executeCleanupCommand\<close>

datatype cleanup_type = ByName | ByPort

datatype cleanup_value = StrVal string | NumVal int

text \<open>The template literal \<^verbatim>\<open>${value}\<close>.\<close>

fun template :: "cleanup_value \<Rightarrow> string" where
  "template (StrVal s) = s"
| "template (NumVal n) = toString n"

text \<open>
  The messages of a \<open>CleanupResult\<close> are Chinese sentences in the source; each is named
  here by a constructor: \<open>PidNotFound\<close> (the PID holding the port cannot be found),
  \<open>NoProcessOnPort\<close> (no process holds the port), \<open>CleanupDone\<close> (cleaned up),
  \<open>NothingToClean\<close> (nothing to clean or no target process found), and
  \<open>CleanupFailed t msg\<close> (cleaning by name or by port failed, with the error's message).
\<close>

datatype cleanup_message =
    PidNotFound
  | NoProcessOnPort
  | CleanupDone
  | NothingToClean
  | CleanupFailed cleanup_type string

record CleanupResult =
  success :: bool
  message :: cleanup_message

definition name_command :: "os_platform \<Rightarrow> string" where
  "name_command pf =
     (case pf of
        Win32 \<Rightarrow> ''tasklist | findstr '' @ [CHR 0x22] @ ''starbox-server.exe'' @ [CHR 0x22]
                  @ '' > NUL && taskkill /F /IM starbox-server.exe /T || exit /b 0''
      | Darwin \<Rightarrow> ''pgrep -f starbox-server | xargs kill -9 || true''
      | OtherPlatform \<Rightarrow> ''pkill -f starbox-server || true'')"

definition lookup_command :: "os_platform \<Rightarrow> cleanup_value \<Rightarrow> string" where
  "lookup_command pf v =
     (case pf of
        Win32 \<Rightarrow> ''netstat -ano | findstr :'' @ template v @ '' | findstr LISTENING''
      | Darwin \<Rightarrow> ''lsof -i tcp:'' @ template v @ '' | grep LISTEN''
      | OtherPlatform \<Rightarrow> ''netstat -tuln | grep :'' @ template v)"

text \<open>
  The first half of \<^verbatim>\<open>executeCleanupCommand\<close>: the command to run (\<open>Inr\<close>), or the result
  the function returns before running one (\<open>Inl\<close>): an early \<^verbatim>\<open>return\<close>, or the result built
  by the \<^verbatim>\<open>catch\<close> block when a lookup command rejects.
\<close>

definition caught :: "cleanup_type \<Rightarrow> string \<Rightarrow> CleanupResult" where
  "caught ty msg = \<lparr>success = False, message = CleanupFailed ty msg\<rparr>"

definition buildCommand ::
  "env \<Rightarrow> cleanup_type \<Rightarrow> cleanup_value \<Rightarrow> ServerManager \<Rightarrow> (CleanupResult + string) \<times> ServerManager" where
  "buildCommand e ty v m =
     (if ty = ByName then (Inr (name_command (platform e)), m)
      else
        (case execPromise e (lookup_command (platform e) v) m of
           (Inl msg, m1) \<Rightarrow> (Inl (caught ty msg), m1)
         | (Inr stdout, m1) \<Rightarrow>
             if trim stdout \<noteq> [] then
               (case platform e of
                  Win32 \<Rightarrow>
                    (case match_trailing_pid (trim stdout) of
                       Some p \<Rightarrow> (Inr (''taskkill /F /PID '' @ p), m1)
                     | None \<Rightarrow> (Inl \<lparr>success = False, message = PidNotFound\<rparr>, m1))
                | Darwin \<Rightarrow>
                    (case match_second_column_pid (trim stdout) of
                       Some p \<Rightarrow> (Inr (''kill -9 '' @ p), m1)
                     | None \<Rightarrow> (Inl \<lparr>success = False, message = PidNotFound\<rparr>, m1))
                | OtherPlatform \<Rightarrow>
                    (case execPromise e (''fuser -n tcp '' @ template v) m1 of
                       (Inl msg, m2) \<Rightarrow> (Inl (caught ty msg), m2)
                     | (Inr pidOut, m2) \<Rightarrow>
                         if trim pidOut \<noteq> [] then (Inr (''kill -9 '' @ trim pidOut), m2)
                         else (Inl \<lparr>success = False, message = PidNotFound\<rparr>, m2)))
             else (Inl \<lparr>success = False, message = NoProcessOnPort\<rparr>, m1)))"

definition executeCleanupCommand ::
  "env \<Rightarrow> cleanup_type \<Rightarrow> cleanup_value \<Rightarrow> ServerManager \<Rightarrow> CleanupResult \<times> ServerManager" where
  "executeCleanupCommand e ty v m =
     (case buildCommand e ty v m of
        (Inl r, m1) \<Rightarrow> (r, m1)
      | (Inr command, m1) \<Rightarrow>
          if command \<noteq> [] then
            (case execPromise e command m1 of
               (Inl msg, m2) \<Rightarrow> (caught ty msg, m2)
             | (Inr out, m2) \<Rightarrow> (\<lparr>success = True, message = CleanupDone\<rparr>, m2))
          else (\<lparr>success = False, message = NothingToClean\<rparr>, m1))"

definition cleanupOldProcesses :: "env \<Rightarrow> ServerManager \<Rightarrow> CleanupResult \<times> ServerManager" where
  "cleanupOldProcesses e m = executeCleanupCommand e ByName (StrVal ''starbox-server'') m"

definition killProcessOnPort :: "env \<Rightarrow> int \<Rightarrow> ServerManager \<Rightarrow> bool \<times> ServerManager" where
  "killProcessOnPort e p m =
     (case executeCleanupCommand e ByPort (NumVal p) m of (r, m1) \<Rightarrow> (success r, m1))"

section \<open>Starting the service\<close>

text \<open>
  \<^verbatim>\<open>getServerPath\<close>: the executable's name depends on the platform, its directory on
  whether the application is packaged; the function throws when the file does not exist.
\<close>

definition getServerPath :: "env \<Rightarrow> ServerManager \<Rightarrow> (js_error + string) \<times> ServerManager" where
  "getServerPath e m =
     (let exeName = (if platform e = Win32 then ''starbox-server.exe'' else ''starbox-server'');
          serverPath = (if isPackaged e then pathJoin e [resourcesPath e, ''server'', exeName]
                        else pathJoin e [appPath e, ''resources'', ''server'', exeName])
      in if \<not> fileExists e (trace m) serverPath
         then (Inl (ExecutableMissing serverPath), emit (ExistsSync serverPath) m)
         else (Inr serverPath, emit (ExistsSync serverPath) m))"

text \<open>
  \<^verbatim>\<open>prepareForStart\<close>: probe the port; when it is in use, reap by port, then by name if
  that failed, probe the same port again and, when it is still in use, add one to the port.
  A probe whose \<^verbatim>\<open>listen\<close> throws rejects the whole function.
\<close>

definition prepareForStart :: "env \<Rightarrow> ServerManager \<Rightarrow> (js_error + unit) \<times> ServerManager" where
  "prepareForStart e m =
     (case isPortInUse e (port m) m of
        (Inl msg, m1) \<Rightarrow> (Inl (Thrown msg), m1)
      | (Inr portInUse, m1) \<Rightarrow>
          if portInUse then
            (case killProcessOnPort e (port m1) m1 of
               (killedByPort, m2) \<Rightarrow>
                 (let m3 = (if \<not> killedByPort then snd (cleanupOldProcesses e m2) else m2)
                  in case isPortInUse e (port m3) m3 of
                       (Inl msg, m4) \<Rightarrow> (Inl (Thrown msg), m4)
                     | (Inr stillInUse, m4) \<Rightarrow>
                         if stillInUse then (Inr (), m4\<lparr>port := port m4 + 1\<rparr>)
                         else (Inr (), m4)))
          else (Inr (), m1))"

text \<open>
  \<^verbatim>\<open>spawnServerProcess\<close>: the arguments are \<^verbatim>\<open>--port <port> --env client\<close>, the
  environment gains \<^verbatim>\<open>ENV=client\<close> (and \<^verbatim>\<open>PYTHONIOENCODING=utf-8\<close> on Windows); the child
  becomes \<^verbatim>\<open>serverProcess\<close> and the listeners below are attached to it.
\<close>

definition spawnServerProcess :: "env \<Rightarrow> ServerManager \<Rightarrow> (js_error + unit) \<times> ServerManager" where
  "spawnServerProcess e m =
     (case getServerPath e m of
        (Inl err, m1) \<Rightarrow> (Inl err, m1)
      | (Inr serverPath, m1) \<Rightarrow>
          (let extraEnv = [(''ENV'', ''client'')]
                 @ (if platform e = Win32 then [(''PYTHONIOENCODING'', ''utf-8'')] else []);
               args = [''--port'', toString (port m1), ''--env'', ''client''];
               m2 = emit (Spawn serverPath args extraEnv) m1
           in case spawnResult e (trace m1) of
                SpawnThrows msg \<Rightarrow> (Inl (Thrown msg), m2)
              | Spawned p \<Rightarrow> (Inr (), m2\<lparr>serverProcess := Some \<lparr>pid = p\<rparr>\<rparr>)))"

text \<open>
  \<^verbatim>\<open>start\<close> in two parts. \<open>start_enter\<close> is the code up to the first \<^verbatim>\<open>await\<close>: the guard on
  \<^verbatim>\<open>serverProcess\<close> (\<open>None\<close>: the call returns at once) and the assignment of a truthy
  \<^verbatim>\<open>port\<close> argument. \<open>start_body\<close> is the \<^verbatim>\<open>try\<close> block with its \<^verbatim>\<open>catch\<close>, which logs the
  error and clears \<^verbatim>\<open>serverReady\<close>. The result of \<open>start\<close> is how its promise settles:
  \<open>Inr ()\<close> resolved, \<open>Inl err\<close> rejected.
\<close>

definition start_enter :: "int option \<Rightarrow> ServerManager \<Rightarrow> ServerManager option" where
  "start_enter p m =
     (if serverProcess m \<noteq> None then None
      else (case p of
              None \<Rightarrow> Some m
            | Some q \<Rightarrow> if q \<noteq> 0 then Some (m\<lparr>port := q\<rparr>) else Some m))"

definition start_body :: "env \<Rightarrow> ServerManager \<Rightarrow> (js_error + unit) \<times> ServerManager" where
  "start_body e m =
     (case prepareForStart e m of
        (Inl err, m1) \<Rightarrow> (Inr (), m1\<lparr>serverReady := False\<rparr>)
      | (Inr u, m1) \<Rightarrow>
          (case spawnServerProcess e m1 of
             (Inl err, m2) \<Rightarrow> (Inr (), m2\<lparr>serverReady := False\<rparr>)
           | (Inr v, m2) \<Rightarrow> (Inr (), m2)))"

definition start :: "env \<Rightarrow> int option \<Rightarrow> ServerManager \<Rightarrow> (js_error + unit) \<times> ServerManager" where
  "start e p m =
     (case start_enter p m of
        None \<Rightarrow> (Inr (), m)
      | Some m1 \<Rightarrow> start_body e m1)"

section \<open>Listeners on the child process\<close>

text \<open>
  \<^verbatim>\<open>setupProcessListeners\<close> registers four callbacks on the child. Each is modelled by the
  change its body makes to the manager's state when its event is delivered; the chunk of
  output is the text that \<^verbatim>\<open>decodeOutput\<close> returns.
\<close>

definition readyMarker :: string where
  "readyMarker = ''Backend server is ready''"

text \<open>The \<^verbatim>\<open>data\<close> listener of the child's standard output, on a decoded chunk.\<close>

definition onStdoutData :: "string \<Rightarrow> ServerManager \<Rightarrow> ServerManager" where
  "onStdoutData output m =
     (if str_includes output readyMarker then m\<lparr>serverReady := True\<rparr> else m)"

text \<open>The \<^verbatim>\<open>data\<close> listener of the child's standard error.\<close>

definition isInfoLine :: "string \<Rightarrow> bool" where
  "isInfoLine output =
     (str_includes output '' INFO '' \<or> str_includes output ''INFO:'' \<or> str_includes output ''DEBUG:'')"

definition onStderrData :: "env \<Rightarrow> string \<Rightarrow> ServerManager \<Rightarrow> ServerManager" where
  "onStderrData e output m =
     (if isInfoLine output then
        (if str_includes output readyMarker then
           (let m1 = m\<lparr>serverReady := True\<rparr>
            in if hasWindow e (trace m1) then emit SendBackendReady m1 else m1)
         else m)
      else m)"



section \<open>Readiness\<close>

definition healthUrl :: "int \<Rightarrow> string" where
  "healthUrl p = ''http://localhost:'' @ toString p @ ''/health''"

text \<open>\<^verbatim>\<open>isReady(timeout = 1000)\<close>; \<open>None\<close> is a call without the argument.\<close>

definition isReady :: "env \<Rightarrow> nat option \<Rightarrow> ServerManager \<Rightarrow> bool \<times> ServerManager" where
  "isReady e timeout m =
     (if serverReady m then (True, m)
      else if serverProcess m = None then (False, m)
      else
        (let t = (case timeout of None \<Rightarrow> 1000 | Some n \<Rightarrow> n);
             m1 = emit (HttpGet (healthUrl (port m)) t) m
         in case httpResult e (trace m) (healthUrl (port m)) t of
              HttpStatus code \<Rightarrow>
                if code = 200 then (True, m1\<lparr>serverReady := True\<rparr>) else (False, m1)
            | HttpError \<Rightarrow> (False, m1)
            | HttpTimeout \<Rightarrow> (False, m1)
            | HttpThrows \<Rightarrow> (False, m1)))"

section \<open>Stopping the service\<close>

text \<open>\<^verbatim>\<open>isProcessRunning\<close>: a falsy pid is not running; otherwise signal 0 is sent.\<close>

definition isProcessRunning :: "env \<Rightarrow> nat \<Rightarrow> ServerManager \<Rightarrow> bool \<times> ServerManager" where
  "isProcessRunning e p m =
     (if p = 0 then (False, m) else (processAlive e (trace m) p, emit (Kill0 p) m))"

text \<open>
  \<^verbatim>\<open>finalCleanupAttempt\<close>: the by-name reap inside \<^verbatim>\<open>try\<close>. \<open>finalCleanupOutcome\<close> is what
  follows the awaited call: on a result (\<open>Inr\<close>) the state is reset and \<^verbatim>\<open>true\<close> returned
  whatever the result's \<^verbatim>\<open>success\<close>; on a throw (\<open>Inl\<close>) the \<^verbatim>\<open>catch\<close> block resets the
  state and returns \<^verbatim>\<open>false\<close>. \<^verbatim>\<open>cleanupOldProcesses\<close> catches every error itself, so the
  call always yields a result.
\<close>

definition finalCleanupOutcome :: "string + CleanupResult \<Rightarrow> ServerManager \<Rightarrow> bool \<times> ServerManager" where
  "finalCleanupOutcome r m =
     (case r of
        Inr result \<Rightarrow> (True, resetServerState m)
      | Inl msg \<Rightarrow> (False, resetServerState m))"

definition finalCleanupAttempt :: "env \<Rightarrow> ServerManager \<Rightarrow> bool \<times> ServerManager" where
  "finalCleanupAttempt e m =
     (case cleanupOldProcesses e m of (result, m1) \<Rightarrow> finalCleanupOutcome (Inr result) m1)"

text \<open>
  The statement of one attempt that sends the signal: \<^verbatim>\<open>taskkill\<close> on Windows; elsewhere
  \<^verbatim>\<open>SIGTERM\<close> on the first attempt and \<^verbatim>\<open>SIGKILL\<close> on the later ones, each only while
  \<^verbatim>\<open>serverProcess\<close> is set. The result is the error it throws, if any.
\<close>

definition sendSignal :: "env \<Rightarrow> nat \<Rightarrow> nat \<Rightarrow> ServerManager \<Rightarrow> string option \<times> ServerManager" where
  "sendSignal e p attempt m =
     (if platform e = Win32 then (killThrows e (trace m), emit (Taskkill p) m)
      else if attempt = 1 \<and> serverProcess m \<noteq> None then (killThrows e (trace m), emit (ChildKill SIGTERM) m)
      else if serverProcess m \<noteq> None then (killThrows e (trace m), emit (ChildKill SIGKILL) m)
      else (None, m))"

text \<open>
  The loop of \<^verbatim>\<open>attemptToStopProcess\<close>, from \<open>attempt\<close> on: a throw inside the \<^verbatim>\<open>try\<close> is
  logged and the next attempt follows; otherwise the loop waits 500 ms and returns
  \<^verbatim>\<open>true\<close> when the process is gone. After the last attempt comes the final cleanup.
\<close>

function attemptLoop :: "env \<Rightarrow> nat \<Rightarrow> nat \<Rightarrow> ServerManager \<Rightarrow> bool \<times> ServerManager" where
  "attemptLoop e p attempt m =
     (if attempt \<le> maxKillAttempts then
        (case sendSignal e p attempt m of
           (Some msg, m1) \<Rightarrow> attemptLoop e p (attempt + 1) m1
         | (None, m1) \<Rightarrow>
             (case isProcessRunning e p (emit (Sleep 500) m1) of
                (processExists, m2) \<Rightarrow>
                  if \<not> processExists then (True, resetServerState m2)
                  else attemptLoop e p (attempt + 1) m2))
      else finalCleanupAttempt e m)"
  by pat_completeness auto
termination
  by (relation "measure (\<lambda>(e, p, attempt, m). maxKillAttempts + 1 - attempt)") auto

declare attemptLoop.simps [simp del]

definition attemptToStopProcess :: "env \<Rightarrow> nat \<Rightarrow> ServerManager \<Rightarrow> bool \<times> ServerManager" where
  "attemptToStopProcess e p m = attemptLoop e p 1 m"

text \<open>\<^verbatim>\<open>stop\<close>: a pid that is undefined or 0 is falsy.\<close>

definition stop :: "env \<Rightarrow> ServerManager \<Rightarrow> bool \<times> ServerManager" where
  "stop e m =
     (case serverProcess m of
        None \<Rightarrow> (True, m)
      | Some child \<Rightarrow>
          (case pid child of
             None \<Rightarrow> (False, resetServerState m)
           | Some p \<Rightarrow>
               if p = 0 then (False, resetServerState m)
               else attemptToStopProcess e p m))"

definition isRunning :: "env \<Rightarrow> ServerManager \<Rightarrow> bool \<times> ServerManager" where
  "isRunning e m =
     (case serverProcess m of
        None \<Rightarrow> (False, m)
      | Some child \<Rightarrow>
          (case pid child of
             None \<Rightarrow> (False, m)
           | Some p \<Rightarrow>
               if p = 0 then (False, m)
               else if platform e \<noteq> Win32 then
                 (if processAlive e (trace m) p then (True, emit (Kill0 p) m)
                  else (False, resetServerState (emit (Kill0 p) m)))
               else (True, m)))"

text \<open>\<^verbatim>\<open>cleanupServicePort\<close>: every error is caught and logged.\<close>

definition cleanupServicePort :: "env \<Rightarrow> ServerManager \<Rightarrow> ServerManager" where
  "cleanupServicePort e m =
     (case isPortInUse e (port m) m of
        (Inl msg, m1) \<Rightarrow> m1
      | (Inr portInUse, m1) \<Rightarrow>
          if portInUse then
            (case killProcessOnPort e (port m1) m1 of
               (killedByPort, m2) \<Rightarrow>
                 (let m3 = (if killedByPort then m2 else snd (cleanupOldProcesses e m2))
                  in snd (isPortInUse e (port m3) m3)))
          else m1)"

section \<open>Interleaved calls of start\<close>

text \<open>
  A call of \<^verbatim>\<open>start\<close> runs without interruption up to its first \<^verbatim>\<open>await\<close>, which is
  inside \<^verbatim>\<open>prepareForStart\<close>, on the promise of \<^verbatim>\<open>isPortInUse\<close>: the guard on
  \<^verbatim>\<open>serverProcess\<close>, the assignment of the port and the \<^verbatim>\<open>listen\<close> request of the probe
  (made inside the promise's executor) all happen before the call is suspended. The event
  loop resumes the call later with the value of the promise; other calls can run in between.

  \<open>prepareAfterProbe\<close> is \<^verbatim>\<open>prepareForStart\<close> from the point where the first probe has
  settled with \<open>r\<close>, and \<open>start_resume\<close> is the \<^verbatim>\<open>try\<close> block of \<^verbatim>\<open>start\<close> from that point,
  with its \<^verbatim>\<open>catch\<close>. A call is modelled by its progress: not yet entered, awaiting the
  probe (with the value the probe settles to), or settled. A schedule names, step by step,
  the call that runs next. The rest of a call after its first \<^verbatim>\<open>await\<close> is run as one step
  (its own later \<^verbatim>\<open>await\<close>s are not split), so every run of a schedule is a run the event
  loop allows.
\<close>

definition prepareAfterProbe ::
  "env \<Rightarrow> string + bool \<Rightarrow> ServerManager \<Rightarrow> (js_error + unit) \<times> ServerManager" where
  "prepareAfterProbe e r m1 =
     (case r of
        Inl msg \<Rightarrow> (Inl (Thrown msg), m1)
      | Inr portInUse \<Rightarrow>
          if portInUse then
            (case killProcessOnPort e (port m1) m1 of
               (killedByPort, m2) \<Rightarrow>
                 (let m3 = (if \<not> killedByPort then snd (cleanupOldProcesses e m2) else m2)
                  in case isPortInUse e (port m3) m3 of
                       (Inl msg, m4) \<Rightarrow> (Inl (Thrown msg), m4)
                     | (Inr stillInUse, m4) \<Rightarrow>
                         if stillInUse then (Inr (), m4\<lparr>port := port m4 + 1\<rparr>)
                         else (Inr (), m4)))
          else (Inr (), m1))"

definition start_resume ::
  "env \<Rightarrow> string + bool \<Rightarrow> ServerManager \<Rightarrow> (js_error + unit) \<times> ServerManager" where
  "start_resume e r m =
     (case prepareAfterProbe e r m of
        (Inl err, m1) \<Rightarrow> (Inr (), m1\<lparr>serverReady := False\<rparr>)
      | (Inr u, m1) \<Rightarrow>
          (case spawnServerProcess e m1 of
             (Inl err, m2) \<Rightarrow> (Inr (), m2\<lparr>serverReady := False\<rparr>)
           | (Inr v, m2) \<Rightarrow> (Inr (), m2)))"

datatype start_call = NotEntered "int option" | Awaiting "string + bool" | Settled

fun advance :: "env \<Rightarrow> start_call \<Rightarrow> ServerManager \<Rightarrow> start_call \<times> ServerManager" where
  "advance e (NotEntered p) m =
     (case start_enter p m of
        None \<Rightarrow> (Settled, m)
      | Some m1 \<Rightarrow> (case isPortInUse e (port m1) m1 of (r, m2) \<Rightarrow> (Awaiting r, m2)))"
| "advance e (Awaiting r) m = (Settled, snd (start_resume e r m))"
| "advance e Settled m = (Settled, m)"

fun run_schedule ::
  "env \<Rightarrow> nat list \<Rightarrow> start_call list \<times> ServerManager \<Rightarrow> start_call list \<times> ServerManager" where
  "run_schedule e [] s = s"
| "run_schedule e (i # sched) (cs, m) =
     (if i < length cs then
        (case advance e (cs ! i) m of (c, m1) \<Rightarrow> run_schedule e sched (cs[i := c], m1))
      else run_schedule e sched (cs, m))"

fun is_spawn :: "event \<Rightarrow> bool" where
  "is_spawn (Spawn path args vars) = True"
| "is_spawn ev = False"

definition spawn_count :: "event list \<Rightarrow> nat" where
  "spawn_count t = length (filter is_spawn t)"

section \<open>Observations on traces\<close>

text \<open>The ports probed in a trace, in order; a trace of shell commands only.\<close>

fun probed :: "event list \<Rightarrow> int list" where
  "probed [] = []"
| "probed (Listen p # t) = p # probed t"
| "probed (ev # t) = probed t"

fun only_exec :: "event list \<Rightarrow> bool" where
  "only_exec [] = True"
| "only_exec (Exec c # t) = only_exec t"
| "only_exec (ev # t) = False"

text \<open>The events that send a signal to the service: \<^verbatim>\<open>taskkill\<close> and \<^verbatim>\<open>serverProcess.kill\<close>.\<close>

fun is_signal :: "event \<Rightarrow> bool" where
  "is_signal (Taskkill p) = True"
| "is_signal (ChildKill s) = True"
| "is_signal ev = False"

definition signal_count :: "event list \<Rightarrow> nat" where
  "signal_count t = length (filter is_signal t)"

section \<open>The invariant on the readiness flag\<close>


section \<open>A reference environment\<close>

text \<open>
  A Linux machine on which every port is free, every shell command succeeds with empty
  output, the executable exists, \<^verbatim>\<open>spawn\<close> yields process 4242, signals are delivered and
  kill the process, and the health request fails. The examples below vary it field by field.
\<close>

definition joinSlash :: "string list \<Rightarrow> string" where
  "joinSlash parts = foldr (\<lambda>a b. if b = [] then a else a @ ''/'' @ b) parts []"

definition calm :: env where
  "calm = \<lparr>platform = OtherPlatform, isPackaged = False, resourcesPath = ''/opt/res'',
            appPath = ''/app'', pathJoin = joinSlash,
            listenResult = (\<lambda>t p. Inr False), execResult = (\<lambda>t c. Inr []),
            fileExists = (\<lambda>t f. True), spawnResult = (\<lambda>t. Spawned (Some 4242)),
            killThrows = (\<lambda>t. None), processAlive = (\<lambda>t p. False),
            httpResult = (\<lambda>t u n. HttpError), hasWindow = (\<lambda>t. False)\<rparr>"

text \<open>A manager that holds the handle of process 4242 and has not seen it ready.\<close>

definition spawned :: ServerManager where
  "spawned = initial\<lparr>serverProcess := Some \<lparr>pid = Some 4242\<rparr>\<rparr>"

text \<open>
  Variations of the reference machine. On \<open>stuck\<close> every port is in use whenever it is
  probed and every shell command rejects, so no reap frees a port. On \<open>unkillable\<close> a
  process survives every signal and every shell command rejects. On \<open>staggered\<close> each
  spawned child gets a process identifier of its own: 4242, 4243, and so on.
\<close>

definition stuck :: env where
  "stuck = calm\<lparr>listenResult := (\<lambda>t p. Inr True), execResult := (\<lambda>t c. Inl ''exit 1'')\<rparr>"

definition unkillable :: env where
  "unkillable = calm\<lparr>processAlive := (\<lambda>t p. True), execResult := (\<lambda>t c. Inl ''exit 1'')\<rparr>"

definition staggered :: env where
  "staggered = calm\<lparr>spawnResult := (\<lambda>t. Spawned (Some (4242 + spawn_count t)))\<rparr>"

text \<open>
  On \<open>nothing_listens\<close> no process listens on port 23450: the lookup pipeline selects no
  line, its \<^verbatim>\<open>grep\<close> exits with status 1 and the promise of \<^verbatim>\<open>exec\<close> rejects.
\<close>

definition nothing_listens :: env where
  "nothing_listens =
     calm\<lparr>execResult := (\<lambda>t c. if c = ''netstat -tuln | grep :23450''
                                 then Inl ''Command failed: netstat -tuln | grep :23450''
                                 else Inr [])\<rparr>"

text \<open>
  On \<open>shell_signalled\<close> no service process exists and the by-name command of Linux is
  rejected all the same: \<^verbatim>\<open>pkill -f\<close> compares its pattern with whole command lines, the
  command line of the shell that \<^verbatim>\<open>exec\<close> starts contains the pattern, and that shell is
  terminated before it reaches \<^verbatim>\<open>|| true\<close>.
\<close>

definition shell_signalled :: env where
  "shell_signalled =
     calm\<lparr>execResult := (\<lambda>t c. if c = ''pkill -f starbox-server || true''
                                 then Inl ''Command failed: pkill -f starbox-server || true''
                                 else Inr [])\<rparr>"

section \<open>Basic facts\<close>

lemma emit_fields [simp]:
  "serverProcess (emit ev m) = serverProcess m"
  "port (emit ev m) = port m"
  "serverReady (emit ev m) = serverReady m"
  "trace (emit ev m) = trace m @ [ev]"
  by (simp_all add: emit_def)

lemma reset_fields [simp]:
  "serverProcess (resetServerState m) = None"
  "port (resetServerState m) = port m"
  "serverReady (resetServerState m) = False"
  "trace (resetServerState m) = trace m"
  by (simp_all add: resetServerState_def)

lemma trim_Nil: "trim [] = []"
  by (simp add: trim_def strip.simps ws_encodings_def)

lemma name_command_nonempty: "name_command pf \<noteq> []"
  by (cases pf) (simp_all add: name_command_def)

lemma toString_23450: "toString 23450 = ''23450''"
  by (simp add: toString_def string_of_nat.simps digit_char_def)

lemma toString_23451: "toString 23451 = ''23451''"
  by (simp add: toString_def string_of_nat.simps digit_char_def)

section \<open>Observations distribute over appended events\<close>

lemma probed_append: "probed (a @ b) = probed a @ probed b"
  by (induction a rule: probed.induct) simp_all

lemma spawn_count_Nil [simp]: "spawn_count [] = 0"
  by (simp add: spawn_count_def)

lemma spawn_count_Cons [simp]:
  "spawn_count (ev # t) = (if is_spawn ev then 1 else 0) + spawn_count t"
  by (simp add: spawn_count_def)

lemma spawn_count_append: "spawn_count (a @ b) = spawn_count a + spawn_count b"
  by (simp add: spawn_count_def)

lemma signal_count_simps [simp]:
  "signal_count [] = 0"
  "signal_count (ev # t) = (if is_signal ev then 1 else 0) + signal_count t"
  "signal_count (a @ b) = signal_count a + signal_count b"
  by (simp_all add: signal_count_def)

lemma only_exec_append: "only_exec a \<Longrightarrow> only_exec b \<Longrightarrow> only_exec (a @ b)"
  by (induction a rule: only_exec.induct) simp_all

lemma only_exec_probed: "only_exec evs \<Longrightarrow> probed evs = []"
  by (induction evs rule: only_exec.induct) simp_all

lemma only_exec_spawn: "only_exec evs \<Longrightarrow> spawn_count evs = 0"
  by (induction evs rule: only_exec.induct) simp_all

section \<open>What the reaper and the port check change\<close>

text \<open>
  The reaper changes nothing of the manager's state; it only issues shell commands.
\<close>

lemma buildCommand_frame:
  "\<exists>evs. snd (buildCommand e ty v m) = m\<lparr>trace := trace m @ evs\<rparr> \<and> only_exec evs"
proof (cases ty)
  case ByName
  have "snd (buildCommand e ty v m) = m\<lparr>trace := trace m @ []\<rparr> \<and> only_exec []"
    using ByName by (simp add: buildCommand_def)
  then show ?thesis by blast
next
  case ByPort
  let ?c = "lookup_command (platform e) v"
  let ?f = "''fuser -n tcp '' @ template v"
  have "snd (buildCommand e ty v m) = m\<lparr>trace := trace m @ [Exec ?c]\<rparr>
      \<or> snd (buildCommand e ty v m) = m\<lparr>trace := trace m @ [Exec ?c, Exec ?f]\<rparr>"
    using ByPort
    by (simp add: buildCommand_def execPromise_def emit_def
          split: sum.splits os_platform.splits option.splits)
  then show ?thesis
    by (metis only_exec.simps(1) only_exec.simps(2))
qed

lemma executeCleanupCommand_frame:
  "\<exists>evs. snd (executeCleanupCommand e ty v m) = m\<lparr>trace := trace m @ evs\<rparr> \<and> only_exec evs"
proof -
  obtain evs where b: "snd (buildCommand e ty v m) = m\<lparr>trace := trace m @ evs\<rparr>"
    and o: "only_exec evs"
    using buildCommand_frame by blast
  show ?thesis
  proof (cases "buildCommand e ty v m")
    case (Pair r m1)
    with b have m1: "m1 = m\<lparr>trace := trace m @ evs\<rparr>" by simp
    show ?thesis
    proof (cases r)
      case (Inl res)
      with Pair m1 o show ?thesis by (auto simp: executeCleanupCommand_def)
    next
      case (Inr command)
      show ?thesis
      proof (cases "command = []")
        case True
        with Pair Inr m1 o show ?thesis by (auto simp: executeCleanupCommand_def)
      next
        case False
        have oo: "only_exec (evs @ [Exec command])" using o by (simp add: only_exec_append)
        have "snd (executeCleanupCommand e ty v m)
            = m\<lparr>trace := trace m @ (evs @ [Exec command])\<rparr>"
          using Pair Inr m1 False
          by (simp add: executeCleanupCommand_def execPromise_def emit_def split: sum.splits)
        with oo show ?thesis by blast
      qed
    qed
  qed
qed

lemma killProcessOnPort_frame:
  "\<exists>evs. snd (killProcessOnPort e p m) = m\<lparr>trace := trace m @ evs\<rparr> \<and> only_exec evs"
  using executeCleanupCommand_frame [of e ByPort "NumVal p" m]
  by (auto simp: killProcessOnPort_def split: prod.splits)

lemma cleanupOldProcesses_frame:
  "\<exists>evs. snd (cleanupOldProcesses e m) = m\<lparr>trace := trace m @ evs\<rparr> \<and> only_exec evs"
  using executeCleanupCommand_frame [of e ByName "StrVal ''starbox-server''" m]
  by (simp add: cleanupOldProcesses_def)


text \<open>
  When the port is in use at every probe, \<^verbatim>\<open>prepareForStart\<close> probes it twice and adds
  one to it.
\<close>

lemma prepareForStart_busy:
  assumes busy: "\<forall>t. listenResult e t (port m) = Inr True"
  shows "\<exists>evs. prepareForStart e m = (Inr (), m\<lparr>port := port m + 1, trace := trace m @ evs\<rparr>)
           \<and> probed evs = [port m, port m] \<and> spawn_count evs = 0"
proof -
  let ?m1 = "emit (Listen (port m)) m"
  obtain evs1 where k: "snd (killProcessOnPort e (port m) ?m1) = ?m1\<lparr>trace := trace ?m1 @ evs1\<rparr>"
    and o1: "only_exec evs1"
    using killProcessOnPort_frame by blast
  let ?m2 = "snd (killProcessOnPort e (port m) ?m1)"
  obtain evs2 where c: "snd (cleanupOldProcesses e ?m2) = ?m2\<lparr>trace := trace ?m2 @ evs2\<rparr>"
    and o2: "only_exec evs2"
    using cleanupOldProcesses_frame by blast
  let ?B = "[Listen (port m)] @ evs1 @ [Listen (port m)]"
  let ?C = "[Listen (port m)] @ evs1 @ evs2 @ [Listen (port m)]"
  have sc: "spawn_count ?B = 0" "spawn_count ?C = 0"
    using o1 o2 by (simp_all add: spawn_count_append only_exec_spawn)
  have pr: "probed ?B = [port m, port m]" "probed ?C = [port m, port m]"
    using o1 o2 by (simp_all add: probed_append only_exec_probed)
  have "prepareForStart e m = (Inr (), m\<lparr>port := port m + 1, trace := trace m @ ?B\<rparr>)
      \<or> prepareForStart e m = (Inr (), m\<lparr>port := port m + 1, trace := trace m @ ?C\<rparr>)"
    using k c busy
    by (cases "killProcessOnPort e (port m) ?m1")
       (auto simp: prepareForStart_def isPortInUse_def emit_def Let_def)
  with sc pr show ?thesis by metis
qed

lemma cleanupServicePort_frame:
  "\<exists>evs. cleanupServicePort e m = m\<lparr>trace := trace m @ evs\<rparr>"
proof -
  let ?m1 = "emit (Listen (port m)) m"
  obtain evs1 where k: "snd (killProcessOnPort e (port m) ?m1) = ?m1\<lparr>trace := trace ?m1 @ evs1\<rparr>"
    using killProcessOnPort_frame by blast
  let ?m2 = "snd (killProcessOnPort e (port m) ?m1)"
  obtain evs2 where c: "snd (cleanupOldProcesses e ?m2) = ?m2\<lparr>trace := trace ?m2 @ evs2\<rparr>"
    using cleanupOldProcesses_frame by blast
  have "cleanupServicePort e m = m\<lparr>trace := trace m @ [Listen (port m)]\<rparr>
      \<or> cleanupServicePort e m
          = m\<lparr>trace := trace m @ ([Listen (port m)] @ evs1 @ [Listen (port m)])\<rparr>
      \<or> cleanupServicePort e m
          = m\<lparr>trace := trace m @ ([Listen (port m)] @ evs1 @ evs2 @ [Listen (port m)])\<rparr>"
    using k c
    by (cases "killProcessOnPort e (port m) ?m1")
       (auto simp: cleanupServicePort_def isPortInUse_def emit_def Let_def split: sum.splits)
  then show ?thesis by metis
qed

section \<open>Facts about start\<close>



lemma spawnServerProcess_last:
  assumes "\<forall>t f. fileExists e t f"
  shows "\<exists>f vars. last (trace (snd (spawnServerProcess e m)))
           = Spawn f [''--port'', toString (port m), ''--env'', ''client''] vars
         \<and> port (snd (spawnServerProcess e m)) = port m"
  using assms
  by (simp add: spawnServerProcess_def getServerPath_def Let_def split: spawn_outcome.splits)

lemma spawnServerProcess_ready [simp]:
  "serverReady (snd (spawnServerProcess e m)) = serverReady m"
  by (simp add: spawnServerProcess_def getServerPath_def Let_def split: spawn_outcome.splits)

text \<open>With a handle present \<^verbatim>\<open>start\<close> does nothing; \<^verbatim>\<open>start\<close> never sets the flag.\<close>

lemma start_handle: "serverProcess m \<noteq> None \<Longrightarrow> start e p m = (Inr (), m)"
  by (simp add: start_def start_enter_def)


text \<open>
  The two halves put together are the whole: \<^verbatim>\<open>prepareForStart\<close> is the first probe
  followed by \<open>prepareAfterProbe\<close>, the body of \<^verbatim>\<open>start\<close> is the first probe followed by
  \<open>start_resume\<close>, and one call of \<^verbatim>\<open>start\<close> run alone in its two steps is \<open>start\<close>.
\<close>

lemma prepareForStart_split:
  "prepareForStart e m
     = prepareAfterProbe e (fst (isPortInUse e (port m) m)) (snd (isPortInUse e (port m) m))"
  by (simp add: prepareForStart_def prepareAfterProbe_def isPortInUse_def split: sum.splits)

lemma start_body_split:
  "start_body e m
     = start_resume e (fst (isPortInUse e (port m) m)) (snd (isPortInUse e (port m) m))"
  by (simp add: start_body_def start_resume_def prepareForStart_split)

lemma run_schedule_single:
  "run_schedule e [0, 0] ([NotEntered p], m) = ([Settled], snd (start e p m))"
  by (simp add: start_def start_body_split split: option.splits prod.splits)

section \<open>Facts about the kill attempts\<close>

lemma finalCleanupAttempt_eq:
  "finalCleanupAttempt e m = (True, resetServerState (emit (Exec (name_command (platform e))) m))"
  by (simp add: finalCleanupAttempt_def finalCleanupOutcome_def cleanupOldProcesses_def
        executeCleanupCommand_def buildCommand_def execPromise_def name_command_nonempty
        split: sum.splits)

lemma sendSignal_trace:
  "trace (snd (sendSignal e p a m)) = trace m
     \<or> (\<exists>ev. trace (snd (sendSignal e p a m)) = trace m @ [ev])"
  by (simp add: sendSignal_def)

lemma sendSignal_live:
  "serverProcess m \<noteq> None \<Longrightarrow>
   \<exists>ev. snd (sendSignal e p a m) = emit ev m \<and> is_signal ev
        \<and> (a = 1 \<longrightarrow> ev = (if platform e = Win32 then Taskkill p else ChildKill SIGTERM))"
  by (auto simp: sendSignal_def)

lemma isProcessRunning_trace:
  "\<exists>evs. trace (snd (isProcessRunning e p m)) = trace m @ evs"
  by (simp add: isProcessRunning_def)

text \<open>The loop always returns \<^verbatim>\<open>true\<close>, with the handle and the flag cleared.\<close>

lemma attemptLoop_result:
  "fst (attemptLoop e p a m) \<and> serverProcess (snd (attemptLoop e p a m)) = None
     \<and> \<not> serverReady (snd (attemptLoop e p a m))"
proof (induction e p a m rule: attemptLoop.induct)
  case (1 e p attempt m)
  show ?case
  proof (cases "attempt \<le> maxKillAttempts")
    case False
    then show ?thesis
      by (subst (1 2 3) attemptLoop.simps) (simp add: finalCleanupAttempt_eq)
  next
    case True
    obtain r m1 where s: "sendSignal e p attempt m = (r, m1)"
      by (cases "sendSignal e p attempt m")
    show ?thesis
    proof (cases r)
      case (Some msg)
      with 1(2) [OF True s [symmetric] Some] True s show ?thesis
        by (subst (1 2 3) attemptLoop.simps) simp
    next
      case None
      obtain ex m2 where i: "isProcessRunning e p (emit (Sleep 500) m1) = (ex, m2)"
        by (cases "isProcessRunning e p (emit (Sleep 500) m1)")
      show ?thesis
      proof (cases ex)
        case False
        with True s None i show ?thesis
          by (subst (1 2 3) attemptLoop.simps) simp
      next
        case ex: True
        then have "\<not> \<not> ex" by simp
        from 1(1) [OF True s [symmetric] None i [symmetric] this] True s None i ex
        show ?thesis
          by (subst (1 2 3) attemptLoop.simps) simp
      qed
    qed
  qed
qed

text \<open>The loop only appends events.\<close>

lemma attemptLoop_trace:
  "\<exists>evs. trace (snd (attemptLoop e p a m)) = trace m @ evs"
proof (induction e p a m rule: attemptLoop.induct)
  case (1 e p attempt m)
  show ?case
  proof (cases "attempt \<le> maxKillAttempts")
    case False
    then show ?thesis
      by (subst attemptLoop.simps) (simp add: finalCleanupAttempt_eq)
  next
    case True
    obtain r m1 where s: "sendSignal e p attempt m = (r, m1)"
      by (cases "sendSignal e p attempt m")
    from sendSignal_trace [of e p attempt m] s
    obtain evs1 where t1: "trace m1 = trace m @ evs1" by auto
    show ?thesis
    proof (cases r)
      case (Some msg)
      from 1(2) [OF True s [symmetric] Some]
      obtain evs where "trace (snd (attemptLoop e p (attempt + 1) m1)) = trace m1 @ evs"
        by blast
      with True s Some t1 show ?thesis
        by (subst attemptLoop.simps) simp
    next
      case None
      obtain ex m2 where i: "isProcessRunning e p (emit (Sleep 500) m1) = (ex, m2)"
        by (cases "isProcessRunning e p (emit (Sleep 500) m1)")
      from isProcessRunning_trace [of e p "emit (Sleep 500) m1"] i t1
      obtain evs2 where t2: "trace m2 = trace m @ evs2" by auto
      show ?thesis
      proof (cases ex)
        case False
        with True s None i t2 show ?thesis
          by (subst attemptLoop.simps) simp
      next
        case ex: True
        then have "\<not> \<not> ex" by simp
        from 1(1) [OF True s [symmetric] None i [symmetric] this]
        obtain evs where "trace (snd (attemptLoop e p (attempt + 1) m2)) = trace m2 @ evs"
          by auto
        with True s None i t2 ex show ?thesis
          by (subst attemptLoop.simps) simp
      qed
    qed
  qed
qed




section \<open>The reaper's result when nothing matches\<close>

text \<open>
  Claim C2, as the code has it. Reaping by name runs one fixed command for the platform,
  whatever the \<^verbatim>\<open>value\<close> argument, and reports success exactly when that command
  resolves; when it rejects, the result is \<^verbatim>\<open>success: false\<close> with the caught error's
  message. Reaping by port reports \<^verbatim>\<open>success: false\<close> whenever the lookup finds no
  listener: with the caught error's message when the lookup command rejects (a \<^verbatim>\<open>grep\<close>
  or \<^verbatim>\<open>findstr\<close> that selects no line exits with status 1), and with the message that no
  process holds the port when the lookup resolves with blank output.
\<close>

theorem cleanup_no_match:
  "fst (executeCleanupCommand e ByName v m)
     = (case execResult e (trace m) (name_command (platform e)) of
          Inl msg \<Rightarrow> \<lparr>success = False, message = CleanupFailed ByName msg\<rparr>
        | Inr out \<Rightarrow> \<lparr>success = True, message = CleanupDone\<rparr>) \<and>
   (execResult e (trace m) (lookup_command (platform e) v) = Inl msg \<longrightarrow>
      fst (executeCleanupCommand e ByPort v m)
        = \<lparr>success = False, message = CleanupFailed ByPort msg\<rparr>) \<and>
   (execResult e (trace m) (lookup_command (platform e) v) = Inr out \<and> trim out = [] \<longrightarrow>
      fst (executeCleanupCommand e ByPort v m) = \<lparr>success = False, message = NoProcessOnPort\<rparr>)"
  by (simp add: executeCleanupCommand_def buildCommand_def execPromise_def
        name_command_nonempty caught_def split: sum.splits)

text \<open>
  The cases at concrete inputs. By name: on a Windows machine whose commands resolve, and
  on \<open>shell_signalled\<close>, where the command is rejected. By port: on \<open>nothing_listens\<close>
  the lookup rejects; on the reference machine it resolves with empty output.
\<close>

theorem cleanup_no_match_witness:
  "fst (executeCleanupCommand (calm\<lparr>platform := Win32\<rparr>) ByName (StrVal ''starbox-server'') initial)
     = \<lparr>success = True, message = CleanupDone\<rparr> \<and>
   fst (executeCleanupCommand shell_signalled ByName (StrVal ''starbox-server'') initial)
     = \<lparr>success = False,
        message = CleanupFailed ByName ''Command failed: pkill -f starbox-server || true''\<rparr> \<and>
   execResult nothing_listens (trace initial)
      (lookup_command (platform nothing_listens) (NumVal 23450))
     = Inl ''Command failed: netstat -tuln | grep :23450'' \<and>
   fst (executeCleanupCommand nothing_listens ByPort (NumVal 23450) initial)
     = \<lparr>success = False,
        message = CleanupFailed ByPort ''Command failed: netstat -tuln | grep :23450''\<rparr> \<and>
   execResult calm (trace initial) (lookup_command (platform calm) (NumVal 23450)) = Inr [] \<and>
   trim [] = [] \<and>
   fst (executeCleanupCommand calm ByPort (NumVal 23450) initial)
     = \<lparr>success = False, message = NoProcessOnPort\<rparr>"
proof -
  have a: "execResult (calm\<lparr>platform := Win32\<rparr>) (trace initial)
      (name_command (platform (calm\<lparr>platform := Win32\<rparr>))) = Inr []"
    by (simp add: calm_def)
  have b: "execResult shell_signalled (trace initial) (name_command (platform shell_signalled))
      = Inl ''Command failed: pkill -f starbox-server || true''"
    by (simp add: shell_signalled_def calm_def name_command_def)
  have c: "execResult nothing_listens (trace initial)
      (lookup_command (platform nothing_listens) (NumVal 23450))
     = Inl ''Command failed: netstat -tuln | grep :23450''"
    by (simp add: nothing_listens_def calm_def lookup_command_def toString_23450)
  have d: "execResult calm (trace initial) (lookup_command (platform calm) (NumVal 23450)) = Inr []
      \<and> trim [] = []"
    by (simp add: calm_def trim_Nil)
  show ?thesis
    using a b c d
      cleanup_no_match [where e = "calm\<lparr>platform := Win32\<rparr>" and m = initial
        and v = "StrVal ''starbox-server''"]
      cleanup_no_match [where e = shell_signalled and m = initial
        and v = "StrVal ''starbox-server''"]
      cleanup_no_match [where e = nothing_listens and m = initial and v = "NumVal 23450"
        and msg = "''Command failed: netstat -tuln | grep :23450''"]
      cleanup_no_match [where e = calm and m = initial and v = "NumVal 23450" and out = "[]"]
    by simp
qed

text \<open>
  Claim C2 as stated fails. By port: no process listens on port 23450, the lookup command
  rejects, and the result is \<^verbatim>\<open>success: false\<close>. By name: no service process exists, the
  command is rejected, and the result is \<^verbatim>\<open>success: false\<close> as well.
\<close>

theorem cleanup_no_match_counterexample:
  "execResult nothing_listens (trace initial)
      (lookup_command (platform nothing_listens) (NumVal 23450))
     = Inl ''Command failed: netstat -tuln | grep :23450'' \<and>
   executeCleanupCommand nothing_listens ByPort (NumVal 23450) initial =
     (\<lparr>success = False,
       message = CleanupFailed ByPort ''Command failed: netstat -tuln | grep :23450''\<rparr>,
      emit (Exec ''netstat -tuln | grep :23450'') initial) \<and>
   executeCleanupCommand shell_signalled ByName (StrVal ''starbox-server'') initial =
     (\<lparr>success = False,
       message = CleanupFailed ByName ''Command failed: pkill -f starbox-server || true''\<rparr>,
      emit (Exec ''pkill -f starbox-server || true'') initial)"
  by (simp add: executeCleanupCommand_def buildCommand_def execPromise_def nothing_listens_def
        shell_signalled_def calm_def caught_def lookup_command_def name_command_def
        toString_23450 initial_def emit_def)

section \<open>Readiness: the marker and the health poll\<close>

text \<open>
  Claim C6, as the code has it. A chunk of standard output that contains the readiness
  phrase sets the flag. A chunk of standard error sets it only when it also carries one of
  the markers \<^verbatim>\<open>' INFO '\<close>, \<^verbatim>\<open>'INFO:'\<close>, \<^verbatim>\<open>'DEBUG:'\<close>. Neither listener clears the flag.
  The health poll of \<^verbatim>\<open>isReady\<close> is the other path: with a handle present, a response
  with status 200 sets the flag.
\<close>

theorem readiness_paths:
  "serverReady (onStdoutData out m) = (serverReady m \<or> str_includes out readyMarker) \<and>
   serverReady (onStderrData e out m)
     = (serverReady m \<or> (isInfoLine out \<and> str_includes out readyMarker)) \<and>
   (serverProcess m \<noteq> None \<and>
    httpResult e (trace m) (healthUrl (port m)) (case timeout of None \<Rightarrow> 1000 | Some n \<Rightarrow> n)
      = HttpStatus 200
      \<longrightarrow> serverReady (snd (isReady e timeout m)))"
  by (auto simp: onStdoutData_def onStderrData_def isReady_def Let_def split: option.splits)

theorem readiness_paths_witness:
  "serverReady (onStdoutData ''Backend server is ready'' spawned) \<and>
   serverReady (onStderrData calm ''INFO: Backend server is ready'' spawned) \<and>
   serverProcess spawned \<noteq> None \<and>
   httpResult (calm\<lparr>httpResult := (\<lambda>t u n. HttpStatus 200)\<rparr>) (trace spawned)
      (healthUrl (port spawned)) 1000 = HttpStatus 200 \<and>
   serverReady (snd (isReady (calm\<lparr>httpResult := (\<lambda>t u n. HttpStatus 200)\<rparr>) None spawned))"
proof -
  have a: "str_includes ''Backend server is ready'' readyMarker"
    by (simp add: readyMarker_def)
  have b: "isInfoLine ''INFO: Backend server is ready'' \<and>
           str_includes ''INFO: Backend server is ready'' readyMarker"
    by (simp add: readyMarker_def isInfoLine_def)
  have c: "serverProcess spawned \<noteq> None" by (simp add: spawned_def)
  show ?thesis
    using a b c
      readiness_paths [of "''Backend server is ready''" spawned calm None]
      readiness_paths [of "''INFO: Backend server is ready''" spawned calm None]
      readiness_paths [of "[]" spawned "calm\<lparr>httpResult := (\<lambda>t u n. HttpStatus 200)\<rparr>" None]
    by simp
qed

text \<open>
  Claim C6 as stated fails on standard error: a chunk that contains the phrase but none of
  the informational markers leaves the flag false.
\<close>

theorem stderr_marker_counterexample:
  "str_includes ''ERROR: Backend server is ready'' readyMarker \<and>
   \<not> serverReady (onStderrData calm ''ERROR: Backend server is ready'' spawned)"
  by (simp add: readyMarker_def onStderrData_def isInfoLine_def spawned_def initial_def)

section \<open>The contract of isReady\<close>

text \<open>
  Claim C8, as the code has it. With the flag set, \<^verbatim>\<open>isReady\<close> returns \<^verbatim>\<open>true\<close> and does
  nothing. With the flag clear and no process handle, it returns \<^verbatim>\<open>false\<close> and does
  nothing: no request is made. With the flag clear and a handle, it makes exactly one
  request to \<^verbatim>\<open>/health\<close> on the current port, returns \<^verbatim>\<open>true\<close> exactly when the response
  has status 200, and leaves the flag equal to what it returns.
\<close>

theorem isReady_contract:
  "(serverReady m \<longrightarrow> isReady e timeout m = (True, m)) \<and>
   (\<not> serverReady m \<and> serverProcess m = None \<longrightarrow> isReady e timeout m = (False, m)) \<and>
   (\<not> serverReady m \<and> serverProcess m \<noteq> None \<longrightarrow>
      (let t = (case timeout of None \<Rightarrow> 1000 | Some n \<Rightarrow> n);
           url = healthUrl (port m);
           r = fst (isReady e timeout m);
           m1 = snd (isReady e timeout m)
       in trace m1 = trace m @ [HttpGet url t] \<and>
          r = (httpResult e (trace m) url t = HttpStatus 200) \<and>
          serverReady m1 = r \<and> serverProcess m1 = serverProcess m \<and> port m1 = port m))"
  by (auto simp: isReady_def Let_def split: http_outcome.splits option.splits)

theorem isReady_contract_witness:
  "serverReady (spawned\<lparr>serverReady := True\<rparr>) \<and>
   isReady calm None (spawned\<lparr>serverReady := True\<rparr>) = (True, spawned\<lparr>serverReady := True\<rparr>) \<and>
   \<not> serverReady initial \<and> serverProcess initial = None \<and>
   isReady calm None initial = (False, initial) \<and>
   \<not> serverReady spawned \<and> serverProcess spawned \<noteq> None \<and>
   trace (snd (isReady calm (Some 2000) spawned))
     = trace spawned @ [HttpGet (healthUrl (port spawned)) 2000] \<and>
   \<not> fst (isReady calm (Some 2000) spawned) \<and>
   \<not> serverReady (snd (isReady calm (Some 2000) spawned))"
proof -
  have a: "serverReady (spawned\<lparr>serverReady := True\<rparr>)" by simp
  have b: "\<not> serverReady initial \<and> serverProcess initial = None" by (simp add: initial_def)
  have c: "\<not> serverReady spawned \<and> serverProcess spawned \<noteq> None"
    by (simp add: spawned_def initial_def)
  have d: "httpResult calm (trace spawned) (healthUrl (port spawned)) 2000 \<noteq> HttpStatus 200"
    by (simp add: calm_def)
  show ?thesis
    using a b c d
      isReady_contract [of "spawned\<lparr>serverReady := True\<rparr>" calm None]
      isReady_contract [of initial calm None]
      isReady_contract [of spawned calm "Some 2000"]
    by (simp add: Let_def)
qed

text \<open>
  Claim C8 as stated fails without a handle: the flag is clear, a service answers 200 on
  the port, and \<^verbatim>\<open>isReady\<close> returns \<^verbatim>\<open>false\<close> without making the request.
\<close>

theorem isReady_idle_counterexample:
  "\<not> serverReady initial \<and>
   httpResult (calm\<lparr>httpResult := (\<lambda>t u n. HttpStatus 200)\<rparr>) (trace initial)
      (healthUrl (port initial)) 1000 = HttpStatus 200 \<and>
   isReady (calm\<lparr>httpResult := (\<lambda>t u n. HttpStatus 200)\<rparr>) None initial = (False, initial)"
  by (simp add: isReady_def initial_def)

section \<open>Stopping an idle manager\<close>

text \<open>
  Claim C9. Without a process handle \<^verbatim>\<open>stop\<close> returns \<^verbatim>\<open>true\<close> and leaves the whole
  state as it was: port, handle, readiness flag, and no request to the system.
\<close>

theorem stop_idle_noop: "serverProcess m = None \<Longrightarrow> stop e m = (True, m)"
  by (simp add: stop_def)

theorem stop_idle_noop_witness:
  "serverProcess initial = None \<and> stop calm initial = (True, initial)"
  using stop_idle_noop [of initial calm] by (simp add: initial_def)

section \<open>Port conflict at start\<close>

text \<open>
  Claim C1, as the code has it. On an idle manager whose port is in use whenever it is
  probed (no reap frees it), \<^verbatim>\<open>start()\<close> probes that port exactly twice, before and after
  the reap, adds one to it exactly once and probes no other port: \<^verbatim>\<open>getPort()\<close> then
  returns the port plus one. If the executable exists, the last request of the call is the
  spawn of the service with \<^verbatim>\<open>--port\<close> set to the port plus one; nothing checks that the
  new port is free.
\<close>

theorem start_port_conflict:
  assumes "serverProcess m = None" and "\<forall>t. listenResult e t (port m) = Inr True"
  shows "getPort (snd (start e None m)) = port m + 1 \<and>
         probed (trace (snd (start e None m))) = probed (trace m) @ [port m, port m] \<and>
         ((\<forall>t f. fileExists e t f) \<longrightarrow>
            (\<exists>f vars. last (trace (snd (start e None m)))
               = Spawn f [''--port'', toString (port m + 1), ''--env'', ''client''] vars))"
proof -
  obtain evs
    where p: "prepareForStart e m = (Inr (), m\<lparr>port := port m + 1, trace := trace m @ evs\<rparr>)"
    and pr: "probed evs = [port m, port m]"
    using prepareForStart_busy [OF assms(2)] by blast
  let ?m1 = "m\<lparr>port := port m + 1, trace := trace m @ evs\<rparr>"
  have s: "snd (start e None m) = snd (spawnServerProcess e ?m1)
         \<or> snd (start e None m) = (snd (spawnServerProcess e ?m1))\<lparr>serverReady := False\<rparr>"
    using assms(1) p
    by (auto simp: start_def start_enter_def start_body_def split: prod.splits sum.splits)
  have f: "\<exists>f. trace (snd (spawnServerProcess e ?m1)) = trace ?m1 @ [ExistsSync f]
            \<or> (\<exists>a v. trace (snd (spawnServerProcess e ?m1))
                        = trace ?m1 @ [ExistsSync f, Spawn f a v])"
    by (auto simp: spawnServerProcess_def getServerPath_def Let_def split: spawn_outcome.splits)
  have pt: "port (snd (spawnServerProcess e ?m1)) = port m + 1"
    by (simp add: spawnServerProcess_def getServerPath_def Let_def split: spawn_outcome.splits)
  have a: "getPort (snd (start e None m)) = port m + 1"
    using s pt by (auto simp: getPort_def)
  have b: "probed (trace (snd (start e None m))) = probed (trace m) @ [port m, port m]"
    using s f pr by (auto simp: probed_append)
  have c: "(\<forall>t f. fileExists e t f) \<longrightarrow>
            (\<exists>f vars. last (trace (snd (start e None m)))
               = Spawn f [''--port'', toString (port m + 1), ''--env'', ''client''] vars)"
  proof
    assume ex: "\<forall>t f. fileExists e t f"
    from spawnServerProcess_last [OF ex, of ?m1] s
    show "\<exists>f vars. last (trace (snd (start e None m)))
               = Spawn f [''--port'', toString (port m + 1), ''--env'', ''client''] vars"
      by auto
  qed
  from a b c show ?thesis by blast
qed

theorem start_port_conflict_witness:
  "serverProcess initial = None \<and> (\<forall>t. listenResult stuck t (port initial) = Inr True) \<and>
   getPort (snd (start stuck None initial)) = 23451 \<and>
   probed (trace (snd (start stuck None initial))) = [23450, 23450] \<and>
   (\<forall>t f. fileExists stuck t f) \<and>
   (\<exists>f vars. last (trace (snd (start stuck None initial)))
               = Spawn f [''--port'', ''23451'', ''--env'', ''client''] vars)"
proof -
  have a: "serverProcess initial = None" by (simp add: initial_def)
  have b: "\<forall>t. listenResult stuck t (port initial) = Inr True" by (simp add: stuck_def)
  have c: "\<forall>t f. fileExists stuck t f" by (simp add: stuck_def calm_def)
  have d: "port initial = 23450" "trace initial = []" by (simp_all add: initial_def)
  show ?thesis
    using a b c start_port_conflict [OF a b] by (simp add: d toString_23451)
qed

text \<open>
  Claim C1 as stated fails: with ports 23450 and 23451 both in use and no reap able to free
  them, \<^verbatim>\<open>start()\<close> probes 23450 twice and never 23451, and spawns the service with
  \<^verbatim>\<open>--port 23451\<close> while that port is in use.
\<close>

theorem start_port_conflict_counterexample:
  "start stuck None initial =
     (Inr (), \<lparr>serverProcess = Some \<lparr>pid = Some 4242\<rparr>, port = 23451, serverReady = False,
               trace = [Listen 23450, Exec ''netstat -tuln | grep :23450'',
                        Exec ''pkill -f starbox-server || true'', Listen 23450,
                        ExistsSync ''/app/resources/server/starbox-server'',
                        Spawn ''/app/resources/server/starbox-server''
                          [''--port'', ''23451'', ''--env'', ''client'']
                          [(''ENV'', ''client'')]]\<rparr>) \<and>
   listenResult stuck
       [Listen 23450, Exec ''netstat -tuln | grep :23450'',
        Exec ''pkill -f starbox-server || true'', Listen 23450,
        ExistsSync ''/app/resources/server/starbox-server'',
        Spawn ''/app/resources/server/starbox-server''
          [''--port'', ''23451'', ''--env'', ''client''] [(''ENV'', ''client'')]]
       23451 = Inr True"
  by (simp add: start_def start_enter_def start_body_def prepareForStart_def isPortInUse_def
        killProcessOnPort_def cleanupOldProcesses_def executeCleanupCommand_def buildCommand_def
        execPromise_def caught_def lookup_command_def name_command_def
        spawnServerProcess_def getServerPath_def stuck_def calm_def joinSlash_def initial_def
        emit_def toString_23450 toString_23451 Let_def)

section \<open>Two calls of start at once\<close>

text \<open>
  Claim C3 at a concrete input: two calls of \<^verbatim>\<open>start()\<close> on an idle manager, the second
  entered while the first awaits its port probe. Both pass the guard on \<^verbatim>\<open>serverProcess\<close>
  and both issue their probe before either is resumed; then both spawn: two processes
  exist, and the manager keeps the handle of the second only. Run one after the other, the
  same two calls spawn one process; and one call run alone in its two steps is \<open>start\<close>.
\<close>

theorem concurrent_start_spawns_twice:
  "run_schedule staggered [0, 1, 0, 1] ([NotEntered None, NotEntered None], initial) =
     ([Settled, Settled],
      \<lparr>serverProcess = Some \<lparr>pid = Some 4243\<rparr>, port = 23450, serverReady = False,
        trace = [Listen 23450, Listen 23450,
                 ExistsSync ''/app/resources/server/starbox-server'',
                 Spawn ''/app/resources/server/starbox-server''
                   [''--port'', ''23450'', ''--env'', ''client''] [(''ENV'', ''client'')],
                 ExistsSync ''/app/resources/server/starbox-server'',
                 Spawn ''/app/resources/server/starbox-server''
                   [''--port'', ''23450'', ''--env'', ''client''] [(''ENV'', ''client'')]]\<rparr>) \<and>
   spawn_count (trace (snd (run_schedule staggered [0, 1, 0, 1]
       ([NotEntered None, NotEntered None], initial)))) = 2 \<and>
   run_schedule staggered [0, 0, 1, 1] ([NotEntered None, NotEntered None], initial) =
     ([Settled, Settled],
      \<lparr>serverProcess = Some \<lparr>pid = Some 4242\<rparr>, port = 23450, serverReady = False,
        trace = [Listen 23450, ExistsSync ''/app/resources/server/starbox-server'',
                 Spawn ''/app/resources/server/starbox-server''
                   [''--port'', ''23450'', ''--env'', ''client''] [(''ENV'', ''client'')]]\<rparr>) \<and>
   run_schedule staggered [0, 0] ([NotEntered None], initial)
     = ([Settled], snd (start staggered None initial))"
proof -
  have a: "run_schedule staggered [0, 1, 0, 1] ([NotEntered None, NotEntered None], initial) =
     ([Settled, Settled],
      \<lparr>serverProcess = Some \<lparr>pid = Some 4243\<rparr>, port = 23450, serverReady = False,
        trace = [Listen 23450, Listen 23450,
                 ExistsSync ''/app/resources/server/starbox-server'',
                 Spawn ''/app/resources/server/starbox-server''
                   [''--port'', ''23450'', ''--env'', ''client''] [(''ENV'', ''client'')],
                 ExistsSync ''/app/resources/server/starbox-server'',
                 Spawn ''/app/resources/server/starbox-server''
                   [''--port'', ''23450'', ''--env'', ''client''] [(''ENV'', ''client'')]]\<rparr>)"
    by (simp add: start_enter_def start_resume_def prepareAfterProbe_def isPortInUse_def
          spawnServerProcess_def getServerPath_def staggered_def calm_def joinSlash_def
          initial_def emit_def toString_23450 Let_def)
  have b: "run_schedule staggered [0, 0, 1, 1] ([NotEntered None, NotEntered None], initial) =
     ([Settled, Settled],
      \<lparr>serverProcess = Some \<lparr>pid = Some 4242\<rparr>, port = 23450, serverReady = False,
        trace = [Listen 23450, ExistsSync ''/app/resources/server/starbox-server'',
                 Spawn ''/app/resources/server/starbox-server''
                   [''--port'', ''23450'', ''--env'', ''client''] [(''ENV'', ''client'')]]\<rparr>)"
    by (simp add: start_enter_def start_resume_def prepareAfterProbe_def isPortInUse_def
          spawnServerProcess_def getServerPath_def staggered_def calm_def joinSlash_def
          initial_def emit_def toString_23450 Let_def)
  have c: "spawn_count (trace (snd (run_schedule staggered [0, 1, 0, 1]
       ([NotEntered None, NotEntered None], initial)))) = 2"
    by (subst a) simp
  from a b c run_schedule_single [of staggered None initial] show ?thesis by blast
qed

section \<open>A missing executable\<close>




section \<open>The final reap of stop\<close>



section \<open>Reaping before the handle is dropped\<close>

text \<open>
  When \<^verbatim>\<open>stop()\<close> finds a handle whose pid is usable, the first thing it does is send a
  signal to the process (\<^verbatim>\<open>taskkill\<close> on Windows, \<^verbatim>\<open>SIGTERM\<close> elsewhere), and it ends with
  the handle dropped.
\<close>

lemma stop_signals_first:
  assumes "serverProcess m = Some child" and "pid child = Some p" and "p \<noteq> 0"
  shows "\<exists>rest. trace (snd (stop e m))
            = trace m @ (if platform e = Win32 then Taskkill p else ChildKill SIGTERM) # rest
         \<and> serverProcess (snd (stop e m)) = None"
proof -
  let ?ev = "if platform e = Win32 then Taskkill p else ChildKill SIGTERM"
  have live: "serverProcess m \<noteq> None" using assms(1) by simp
  have st: "stop e m = attemptLoop e p 1 m"
    using assms by (simp add: stop_def attemptToStopProcess_def)
  obtain r m1 where s: "sendSignal e p 1 m = (r, m1)" by (cases "sendSignal e p 1 m")
  from sendSignal_live [OF live, of e p 1] s have m1: "m1 = emit ?ev m" by auto
  have "\<exists>rest. trace (snd (attemptLoop e p 1 m)) = trace m @ ?ev # rest"
  proof (cases r)
    case (Some msg)
    obtain evs where "trace (snd (attemptLoop e p (1 + 1) m1)) = trace m1 @ evs"
      using attemptLoop_trace by blast
    then show ?thesis
      using s Some m1 by (subst attemptLoop.simps) (simp add: maxKillAttempts_def)
  next
    case None
    obtain ex m2 where i: "isProcessRunning e p (emit (Sleep 500) m1) = (ex, m2)"
      by (cases "isProcessRunning e p (emit (Sleep 500) m1)")
    from isProcessRunning_trace [of e p "emit (Sleep 500) m1"] i m1
    obtain evs2 where t2: "trace m2 = trace m @ ?ev # Sleep 500 # evs2" by auto
    obtain evs where "trace (snd (attemptLoop e p (1 + 1) m2)) = trace m2 @ evs"
      using attemptLoop_trace by blast
    then show ?thesis
      using s None i t2 by (subst attemptLoop.simps) (simp add: maxKillAttempts_def)
  qed
  then show ?thesis
    using st attemptLoop_result [of e p 1 m] by simp
qed

text \<open>
  Claim C7, as the code has it: what each public operation does to a handle that exists.
  \<^verbatim>\<open>start\<close>, \<^verbatim>\<open>isReady\<close> and the two cleanup operations keep it. \<^verbatim>\<open>stop()\<close> with a usable
  pid sends a signal first and then drops the handle. Two paths drop the handle with no
  reap attempt: \<^verbatim>\<open>stop()\<close> when the pid is undefined or 0, which makes no request at all,
  and \<^verbatim>\<open>isRunning()\<close> on a platform other than Windows when the existence check
  \<^verbatim>\<open>process.kill(pid, 0)\<close> throws, whose only request is that check. In every other case
  \<^verbatim>\<open>isRunning()\<close> keeps the handle. (The \<^verbatim>\<open>exit\<close> and \<^verbatim>\<open>error\<close> listeners clear the handle
  too; they are not operations of the interface.)
\<close>

theorem handle_drop_paths:
  assumes "serverProcess m = Some child"
  shows "snd (start e q m) = m \<and>
         serverProcess (snd (isReady e timeout m)) = Some child \<and>
         serverProcess (snd (cleanupOldProcesses e m)) = Some child \<and>
         serverProcess (cleanupServicePort e m) = Some child \<and>
         (pid child = Some p \<and> p \<noteq> 0 \<longrightarrow>
            (\<exists>rest. trace (snd (stop e m))
                = trace m @ (if platform e = Win32 then Taskkill p else ChildKill SIGTERM) # rest
              \<and> serverProcess (snd (stop e m)) = None)) \<and>
         (pid child = None \<or> pid child = Some 0 \<longrightarrow> stop e m = (False, resetServerState m)) \<and>
         (pid child = Some p \<and> p \<noteq> 0 \<and> platform e \<noteq> Win32 \<and> \<not> processAlive e (trace m) p \<longrightarrow>
            isRunning e m = (False, resetServerState (emit (Kill0 p) m))) \<and>
         (pid child = None \<or> pid child = Some 0 \<or> platform e = Win32
            \<or> (pid child = Some p \<and> processAlive e (trace m) p) \<longrightarrow>
            serverProcess (snd (isRunning e m)) = Some child)"
proof -
  have a: "snd (start e q m) = m"
    using assms by (simp add: start_handle)
  have b: "serverProcess (snd (isReady e timeout m)) = Some child"
    using assms by (simp add: isReady_def Let_def split: http_outcome.splits)
  obtain evs1 where "snd (cleanupOldProcesses e m) = m\<lparr>trace := trace m @ evs1\<rparr>"
    using cleanupOldProcesses_frame by blast
  then have c: "serverProcess (snd (cleanupOldProcesses e m)) = Some child"
    using assms by simp
  obtain evs2 where "cleanupServicePort e m = m\<lparr>trace := trace m @ evs2\<rparr>"
    using cleanupServicePort_frame by blast
  then have d: "serverProcess (cleanupServicePort e m) = Some child"
    using assms by simp
  have f: "pid child = Some p \<and> p \<noteq> 0 \<longrightarrow>
            (\<exists>rest. trace (snd (stop e m))
                = trace m @ (if platform e = Win32 then Taskkill p else ChildKill SIGTERM) # rest
              \<and> serverProcess (snd (stop e m)) = None)"
    using stop_signals_first [OF assms, of p e] by blast
  have g: "pid child = None \<or> pid child = Some 0 \<longrightarrow> stop e m = (False, resetServerState m)"
    using assms by (auto simp: stop_def)
  have h: "pid child = Some p \<and> p \<noteq> 0 \<and> platform e \<noteq> Win32 \<and> \<not> processAlive e (trace m) p \<longrightarrow>
            isRunning e m = (False, resetServerState (emit (Kill0 p) m))"
    using assms by (simp add: isRunning_def)
  have k: "pid child = None \<or> pid child = Some 0 \<or> platform e = Win32
            \<or> (pid child = Some p \<and> processAlive e (trace m) p) \<longrightarrow>
            serverProcess (snd (isRunning e m)) = Some child"
    using assms by (auto simp: isRunning_def split: option.splits)
  from a b c d f g h k show ?thesis by blast
qed

text \<open>
  A handle with pid 4242 on the reference machine, where the process is gone at the
  existence check; a handle without a pid; and the same handle on a machine where the
  process is alive.
\<close>

theorem handle_drop_paths_witness:
  "serverProcess spawned = Some \<lparr>pid = Some 4242\<rparr> \<and>
   snd (start calm None spawned) = spawned \<and>
   serverProcess (snd (isReady calm None spawned)) = Some \<lparr>pid = Some 4242\<rparr> \<and>
   serverProcess (snd (cleanupOldProcesses calm spawned)) = Some \<lparr>pid = Some 4242\<rparr> \<and>
   serverProcess (cleanupServicePort calm spawned) = Some \<lparr>pid = Some 4242\<rparr> \<and>
   (\<exists>rest. trace (snd (stop calm spawned)) = trace spawned @ ChildKill SIGTERM # rest) \<and>
   serverProcess (snd (stop calm spawned)) = None \<and>
   \<not> processAlive calm (trace spawned) 4242 \<and>
   isRunning calm spawned = (False, resetServerState (emit (Kill0 4242) spawned)) \<and>
   serverProcess (initial\<lparr>serverProcess := Some \<lparr>pid = None\<rparr>\<rparr>) = Some \<lparr>pid = None\<rparr> \<and>
   stop calm (initial\<lparr>serverProcess := Some \<lparr>pid = None\<rparr>\<rparr>)
     = (False, resetServerState (initial\<lparr>serverProcess := Some \<lparr>pid = None\<rparr>\<rparr>)) \<and>
   processAlive unkillable (trace spawned) 4242 \<and>
   serverProcess (snd (isRunning unkillable spawned)) = Some \<lparr>pid = Some 4242\<rparr>"
proof -
  have a: "serverProcess spawned = Some \<lparr>pid = Some 4242\<rparr>" by (simp add: spawned_def)
  have b: "serverProcess (initial\<lparr>serverProcess := Some \<lparr>pid = None\<rparr>\<rparr>) = Some \<lparr>pid = None\<rparr>"
    by simp
  have c: "platform calm \<noteq> Win32" "\<not> processAlive calm (trace spawned) 4242"
    by (simp_all add: calm_def)
  have d: "processAlive unkillable (trace spawned) 4242" by (simp add: unkillable_def)
  show ?thesis
    using a b c d
      handle_drop_paths [OF a, where e = calm and q = None and timeout = None and p = 4242]
      handle_drop_paths [OF b, where e = calm and q = None and timeout = None and p = 0]
      handle_drop_paths [OF a, where e = unkillable and q = None and timeout = None and p = 4242]
    by simp
qed

text \<open>
  Claim C7 as stated fails on two paths. A handle exists, its pid is undefined, and
  \<^verbatim>\<open>stop()\<close> drops the handle and returns \<^verbatim>\<open>false\<close> with no request to the system at all.
  A handle with pid 4242 exists, the existence check of \<^verbatim>\<open>isRunning()\<close> throws, and
  \<^verbatim>\<open>isRunning()\<close> drops the handle: the check is its only request, no signal and no reap.
\<close>

theorem handle_dropped_without_reap_counterexample:
  "stop calm (initial\<lparr>serverProcess := Some \<lparr>pid = None\<rparr>\<rparr>) = (False, initial) \<and>
   isRunning calm spawned
     = (False, \<lparr>serverProcess = None, port = 23450, serverReady = False, trace = [Kill0 4242]\<rparr>)"
  by (simp add: stop_def isRunning_def resetServerState_def initial_def spawned_def calm_def
        emit_def)

section \<open>The readiness flag and the handle\<close>










end
